theory Spec2Isabelle
  imports Complex_Main "HOL-Library.Word"
begin

section \<open>JavaScript values used by the fixtures\<close>

subsection \<open>Characters and strings\<close>

text \<open>
  A JavaScript string is modelled as a \<^typ>\<open>string\<close>: the request line and the header
  values that Node hands to a handler are decoded one byte per code unit, so every code
  unit is a \<^typ>\<open>char\<close>. \<open>\d\<close> in a regular expression without flags is \<open>[0-9]\<close>.
\<close>

definition is_digit :: "char \<Rightarrow> bool" where
  "is_digit c = (48 \<le> (of_char c :: int) \<and> (of_char c :: int) \<le> 57)"

definition digit_value :: "char \<Rightarrow> int" where
  "digit_value c = of_char c - 48"

definition digit_char :: "int \<Rightarrow> char" where
  "digit_char d = char_of (48 + d)"

text \<open>The mathematical value of a string of decimal digits, most significant first.\<close>

definition digits_value :: "string \<Rightarrow> int" where
  "digits_value ds = foldl (\<lambda>a c. 10 * a + digit_value c) 0 ds"

text \<open>The decimal digits of a natural number, without leading zeros.\<close>

function decimal :: "int \<Rightarrow> string" where
  "decimal n = (if n < 10 then [digit_char n] else decimal (n div 10) @ [digit_char (n mod 10)])"
  by pat_completeness auto
termination
  by (relation "measure nat") auto

declare decimal.simps [simp del]

text \<open>
  \<open>StrWhiteSpaceChar\<close> of ECMAScript, restricted to the code units below 256: TAB, LF, VT,
  FF, CR, SP and NBSP.
\<close>

definition is_white_space :: "char \<Rightarrow> bool" where
  "is_white_space c = ((of_char c :: int) \<in> {9, 10, 11, 12, 13, 32, 160})"

text \<open>\<open>s.startsWith(p)\<close>.\<close>

definition startsWith :: "string \<Rightarrow> string \<Rightarrow> bool" where
  "startsWith s p = (take (length p) s = p)"

text \<open>
  \<open>s.split(sep)\<close> for a separator of one character: the pieces between the separators,
  in order. The result is never empty (\<open>''.split('/')\<close> is \<open>['']\<close>).
\<close>

fun split :: "char \<Rightarrow> string \<Rightarrow> string list" where
  "split sep [] = [[]]"
| "split sep (c # cs) =
     (if c = sep then [] # split sep cs
      else (case split sep cs of [] \<Rightarrow> [[c]] | t # ts \<Rightarrow> (c # t) # ts))"

text \<open>\<open>xs.join(sep)\<close>.\<close>

fun join :: "string \<Rightarrow> string list \<Rightarrow> string" where
  "join sep [] = []"
| "join sep [x] = x"
| "join sep (x # y # ys) = x @ sep @ join sep (y # ys)"

text \<open>
  \<open>xs.slice(start, end)\<close>: a negative index counts from the end, and both indices are
  clamped to the array.
\<close>

definition Array_slice :: "'a list \<Rightarrow> int \<Rightarrow> int \<Rightarrow> 'a list" where
  "Array_slice xs start end' =
     (let len = int (length xs);
          k = (if start < 0 then max (len + start) 0 else min start len);
          final = (if end' < 0 then max (len + end') 0 else min end' len)
      in take (nat (final - k)) (drop (nat k) xs))"

text \<open>\<open>xs[i]\<close>: \<open>undefined\<close> (here \<open>None\<close>) outside the array.\<close>

definition at_index :: "'a list \<Rightarrow> int \<Rightarrow> 'a option" where
  "at_index xs i = (if 0 \<le> i \<and> i < int (length xs) then Some (xs ! nat i) else None)"

text \<open>\<open>ToString\<close> of a value that is a string or \<open>undefined\<close>.\<close>

definition ToString :: "string option \<Rightarrow> string" where
  "ToString v = (case v of None \<Rightarrow> ''undefined'' | Some s \<Rightarrow> s)"

subsection \<open>The two regular expressions\<close>

text \<open>
  \<open>/\/\d+\/\d{3}$/.test(s)\<close>: the pattern is not anchored at the start and \<open>$\<close> (no
  \<open>m\<close> flag) is the end of the string, so the test asks whether \<open>s\<close> ends in a slash, one
  or more digits, a slash and exactly three digits. Read from the end: three digits, a
  slash, then a non-empty maximal run of digits that is preceded by a slash.
\<close>

definition test_redirect :: "string \<Rightarrow> bool" where
  "test_redirect s =
     (case rev s of
        c3 # c2 # c1 # sl # r \<Rightarrow>
          is_digit c1 \<and> is_digit c2 \<and> is_digit c3 \<and> sl = CHR ''/'' \<and>
          takeWhile is_digit r \<noteq> [] \<and>
          (case dropWhile is_digit r of [] \<Rightarrow> False | x # _ \<Rightarrow> x = CHR ''/'')
      | _ \<Rightarrow> False)"

text \<open>\<open>/^\/bytes\/\d+$/.test(s)\<close>: the whole string is \<open>/bytes/\<close> and one or more digits.\<close>

definition test_bytes :: "string \<Rightarrow> bool" where
  "test_bytes s =
     (take 7 s = ''/bytes/'' \<and> drop 7 s \<noteq> [] \<and> list_all is_digit (drop 7 s))"

subsection \<open>Numbers\<close>

text \<open>
  A JavaScript number is an IEEE 754 double. A finite double is modelled by the rational
  it denotes (the two zeros are not told apart: nothing below depends on the sign of
  zero).
\<close>

datatype number = NaN | Finite rat | PosInfinity | NegInfinity

text \<open>The number of binary and of decimal digits of a positive integer.\<close>

function bit_length :: "int \<Rightarrow> int" where
  "bit_length n = (if n \<le> 0 then 0 else 1 + bit_length (n div 2))"
  by pat_completeness auto
termination
  by (relation "measure nat") auto

function digit_length :: "int \<Rightarrow> int" where
  "digit_length n = (if n \<le> 0 then 0 else 1 + digit_length (n div 10))"
  by pat_completeness auto
termination
  by (relation "measure nat") auto

declare bit_length.simps [simp del] digit_length.simps [simp del]

text \<open>
  \<open>\<lfloor>log\<^sub>2 x\<rfloor>\<close> and \<open>\<lfloor>log\<^sub>1\<^sub>0 x\<rfloor>\<close> of a positive rational, from the lengths of its numerator
  and denominator.
\<close>

definition floor_log2 :: "rat \<Rightarrow> int" where
  "floor_log2 x =
     (let (p, q) = quotient_of x;
          e = bit_length p - bit_length q
      in if 2 powi e \<le> x then e else e - 1)"

definition floor_log10 :: "rat \<Rightarrow> int" where
  "floor_log10 x =
     (let (p, q) = quotient_of x;
          e = digit_length p - digit_length q
      in if 10 powi e \<le> x then e else e - 1)"

definition round_half_even :: "rat \<Rightarrow> int" where
  "round_half_even x =
     (let f = \<lfloor>x\<rfloor>; r = x - of_int f
      in if r < 1 / 2 then f else if 1 / 2 < r then f + 1 else if even f then f else f + 1)"

definition is_integer :: "rat \<Rightarrow> bool" where
  "is_integer x = (x = of_int \<lfloor>x\<rfloor>)"

text \<open>
  Rounding a non-zero rational to the nearest double, ties to the even significand: 53
  significant bits, the exponent of the subnormals at the bottom, infinity from
  \<open>2\<^sup>1\<^sup>0\<^sup>2\<^sup>4\<close> on.
\<close>

definition round_to_double :: "rat \<Rightarrow> number" where
  "round_to_double x =
     (let a = \<bar>x\<bar>;
          e = max (floor_log2 a) (- 1022);
          ulp = 2 powi (e - 52);
          d = of_int (round_half_even (a / ulp)) * ulp
      in if 2 powi 1024 \<le> d then (if 0 < x then PosInfinity else NegInfinity)
         else Finite (if 0 < x then d else - d))"

text \<open>
  The Number value for a rational. An integer of magnitude at most \<open>2\<^sup>5\<^sup>3\<close> is a double,
  so rounding leaves it as it is; that case is written out.
\<close>

definition to_double :: "rat \<Rightarrow> number" where
  "to_double x =
     (if is_integer x \<and> \<bar>x\<bar> \<le> 2 ^ 53 then Finite x else round_to_double x)"

text \<open>\<open>a - b\<close> and \<open>a > b\<close> on numbers.\<close>

fun number_minus :: "number \<Rightarrow> number \<Rightarrow> number" where
  "number_minus (Finite a) (Finite b) = to_double (a - b)"
| "number_minus NaN _ = NaN"
| "number_minus _ NaN = NaN"
| "number_minus PosInfinity PosInfinity = NaN"
| "number_minus NegInfinity NegInfinity = NaN"
| "number_minus PosInfinity _ = PosInfinity"
| "number_minus NegInfinity _ = NegInfinity"
| "number_minus (Finite a) PosInfinity = NegInfinity"
| "number_minus (Finite a) NegInfinity = PosInfinity"

fun number_greater :: "number \<Rightarrow> number \<Rightarrow> bool" where
  "number_greater (Finite a) (Finite b) = (b < a)"
| "number_greater NaN _ = False"
| "number_greater _ NaN = False"
| "number_greater PosInfinity b = (b \<noteq> PosInfinity)"
| "number_greater NegInfinity _ = False"
| "number_greater (Finite a) PosInfinity = False"
| "number_greater (Finite a) NegInfinity = True"

text \<open>\<open>ToBoolean\<close> of a number, as \<open>||\<close> uses it: \<open>NaN\<close> and zero are falsy.\<close>

fun truthy :: "number \<Rightarrow> bool" where
  "truthy NaN = False"
| "truthy (Finite x) = (x \<noteq> 0)"
| "truthy _ = True"

text \<open>
  \<open>Number::toString\<close> in radix 10. For a positive double \<open>x\<close> the digits are those of
  the integer \<open>s\<close> with the fewest digits \<open>k\<close> such that \<open>s \<times> 10\<^sup>n\<^sup>-\<^sup>k\<close> rounds to \<open>x\<close>; among
  several such \<open>s\<close> the one closest to \<open>x\<close>, and the even one of two equally close.
  Seventeen digits always suffice.
\<close>

definition digit_candidates :: "rat \<Rightarrow> nat \<Rightarrow> (int \<times> int) list" where
  "digit_candidates x k =
     concat (map (\<lambda>n.
       filter (\<lambda>(n, s). 10 ^ (k - 1) \<le> s \<and> s < 10 ^ k \<and>
                 to_double (of_int s * 10 powi (n - int k)) = Finite x)
         [(n, \<lfloor>x / 10 powi (n - int k)\<rfloor>), (n, \<lfloor>x / 10 powi (n - int k)\<rfloor> + 1)])
       [floor_log10 x + 1, floor_log10 x + 2])"

definition closer :: "rat \<Rightarrow> nat \<Rightarrow> int \<times> int \<Rightarrow> int \<times> int \<Rightarrow> int \<times> int" where
  "closer x k a b =
     (let da = \<bar>of_int (snd a) * 10 powi (fst a - int k) - x\<bar>;
          db = \<bar>of_int (snd b) * 10 powi (fst b - int k) - x\<bar>
      in if da < db then a else if db < da then b else if even (snd a) then a else b)"

definition shortest_digits :: "rat \<Rightarrow> int \<times> nat \<times> int" where
  "shortest_digits x =
     (case filter (\<lambda>k. digit_candidates x k \<noteq> []) [1..<18] of
        [] \<Rightarrow> (0, 1, 0)
      | k # _ \<Rightarrow>
          (case digit_candidates x k of
             [] \<Rightarrow> (0, 1, 0)
           | c # cs \<Rightarrow> (let (n, s) = foldl (closer x k) c cs in (n, k, s))))"

definition format_digits :: "int \<Rightarrow> nat \<Rightarrow> int \<Rightarrow> string" where
  "format_digits n k s =
     (let ds = decimal s;
          e = n - 1;
          exponent = (if 0 \<le> e then ''+'' else ''-'') @ decimal \<bar>e\<bar>
      in if int k \<le> n \<and> n \<le> 21 then ds @ replicate (nat (n - int k)) CHR ''0''
         else if 0 < n \<and> n \<le> 21 then take (nat n) ds @ ''.'' @ drop (nat n) ds
         else if - 6 < n \<and> n \<le> 0 then ''0.'' @ replicate (nat (- n)) CHR ''0'' @ ds
         else if k = 1 then ds @ ''e'' @ exponent
         else take 1 ds @ ''.'' @ drop 1 ds @ ''e'' @ exponent)"

text \<open>
  An integer of magnitude at most \<open>2\<^sup>5\<^sup>3\<close> prints as its decimal digits (they are the
  shortest digits that round to it); that case is written out.
\<close>

definition positive_toString :: "rat \<Rightarrow> string" where
  "positive_toString x =
     (if is_integer x \<and> x \<le> 2 ^ 53 then decimal \<lfloor>x\<rfloor>
      else (let (n, k, s) = shortest_digits x in format_digits n k s))"

fun Number_toString :: "number \<Rightarrow> string" where
  "Number_toString NaN = ''NaN''"
| "Number_toString PosInfinity = ''Infinity''"
| "Number_toString NegInfinity = ''-Infinity''"
| "Number_toString (Finite x) =
     (if x = 0 then ''0''
      else if x < 0 then ''-'' @ positive_toString (- x)
      else positive_toString x)"

text \<open>
  \<open>parseInt(string, 10)\<close>: leading white space is skipped, a sign is read, and the longest
  run of decimal digits that follows is the value, rounded to a double; \<open>NaN\<close> when there
  is no digit.
\<close>

definition parseInt :: "string option \<Rightarrow> number" where
  "parseInt v =
     (let s = dropWhile is_white_space (ToString v);
          negative = (case s of [] \<Rightarrow> False | c # _ \<Rightarrow> c = CHR ''-'');
          signed = (case s of [] \<Rightarrow> False | c # _ \<Rightarrow> c = CHR ''-'' \<or> c = CHR ''+'');
          z = takeWhile is_digit (if signed then tl s else s)
      in if z = [] then NaN
         else to_double ((if negative then - 1 else 1) * of_int (digits_value z)))"

text \<open>
  \<open>Number(string)\<close>, the \<open>StringToNumber\<close> of ECMAScript. White space is trimmed at both
  ends; the empty string is \<open>0\<close>; what is left must be, as a whole, a decimal literal
  (an optional sign, then \<open>Infinity\<close> or digits with an optional fraction and an optional
  exponent) or an unsigned binary, octal or hexadecimal integer literal; anything else is
  \<open>NaN\<close>.
\<close>

definition trim :: "string \<Rightarrow> string" where
  "trim s = rev (dropWhile is_white_space (rev (dropWhile is_white_space s)))"

text \<open>
  \<open>ExponentPart\<^sub>o\<^sub>p\<^sub>t\<close> at the end of a literal: the exponent it denotes, \<open>None\<close> when the
  rest of the string is not an exponent part.
\<close>

definition exponent_part :: "string \<Rightarrow> int option" where
  "exponent_part s =
     (case s of
        [] \<Rightarrow> Some 0
      | c # r \<Rightarrow>
          if c = CHR ''e'' \<or> c = CHR ''E'' then
            (let negative = (case r of [] \<Rightarrow> False | d # _ \<Rightarrow> d = CHR ''-'');
                 signed = (case r of [] \<Rightarrow> False | d # _ \<Rightarrow> d = CHR ''-'' \<or> d = CHR ''+'');
                 ds = (if signed then tl r else r)
             in if ds \<noteq> [] \<and> list_all is_digit ds
                then Some ((if negative then - 1 else 1) * digits_value ds)
                else None)
          else None)"

text \<open>
  \<open>StrUnsignedDecimalLiteral\<close> other than \<open>Infinity\<close>: the mathematical value of
  \<open>digits\<close>, \<open>digits.\<close>, \<open>digits.digits\<close> or \<open>.digits\<close>, each with an optional exponent.
\<close>

definition unsigned_decimal :: "string \<Rightarrow> rat option" where
  "unsigned_decimal s =
     (let ip = takeWhile is_digit s; r = dropWhile is_digit s
      in case r of
           [] \<Rightarrow> if ip = [] then None else Some (of_int (digits_value ip))
         | c # r' \<Rightarrow>
             if c = CHR ''.'' then
               (let fp = takeWhile is_digit r'; r'' = dropWhile is_digit r'
                in if ip = [] \<and> fp = [] then None
                   else map_option
                     (\<lambda>e. (of_int (digits_value ip) + of_int (digits_value fp) / 10 ^ length fp)
                            * 10 powi e)
                     (exponent_part r''))
             else if ip = [] then None
             else map_option (\<lambda>e. of_int (digits_value ip) * 10 powi e) (exponent_part r))"

text \<open>The value of a digit in a radix up to 16, \<open>None\<close> when the character is no such digit.\<close>

definition radix_digit :: "int \<Rightarrow> char \<Rightarrow> int option" where
  "radix_digit radix c =
     (let n = (of_char c :: int);
          v = (if 48 \<le> n \<and> n \<le> 57 then Some (n - 48)
               else if 97 \<le> n \<and> n \<le> 102 then Some (n - 87)
               else if 65 \<le> n \<and> n \<le> 70 then Some (n - 55)
               else None)
      in case v of None \<Rightarrow> None | Some d \<Rightarrow> if d < radix then Some d else None)"

text \<open>\<open>NonDecimalIntegerLiteral\<close>: \<open>0b\<close>, \<open>0o\<close> or \<open>0x\<close> (either case) and at least one digit.\<close>

definition non_decimal :: "string \<Rightarrow> rat option" where
  "non_decimal s =
     (case s of
        z # p # ds \<Rightarrow>
          (let radix = (if p = CHR ''b'' \<or> p = CHR ''B'' then 2
                        else if p = CHR ''o'' \<or> p = CHR ''O'' then 8
                        else if p = CHR ''x'' \<or> p = CHR ''X'' then 16
                        else (0::int))
           in if z = CHR ''0'' \<and> radix \<noteq> 0 \<and> ds \<noteq> [] \<and>
                 list_all (\<lambda>c. radix_digit radix c \<noteq> None) ds
              then Some (of_int (foldl (\<lambda>a c. radix * a + (case radix_digit radix c of None \<Rightarrow> 0 | Some d \<Rightarrow> d)) 0 ds))
              else None)
      | _ \<Rightarrow> None)"

definition Number :: "string \<Rightarrow> number" where
  "Number str =
     (let s = trim str;
          negative = (case s of [] \<Rightarrow> False | c # _ \<Rightarrow> c = CHR ''-'');
          signed = (case s of [] \<Rightarrow> False | c # _ \<Rightarrow> c = CHR ''-'' \<or> c = CHR ''+'');
          u = (if signed then tl s else s)
      in if s = [] then Finite 0
         else case non_decimal s of
           Some v \<Rightarrow> to_double v
         | None \<Rightarrow>
             if u = ''Infinity'' then (if negative then NegInfinity else PosInfinity)
             else (case unsigned_decimal u of
                     None \<Rightarrow> NaN
                   | Some v \<Rightarrow> to_double (if negative then - v else v)))"

subsection \<open>JSON text\<close>

text \<open>
  \<open>JSON.stringify\<close> on strings, arrays of strings and objects of them, which is all the
  router serialises. A string is quoted with the two-character escapes of JSON and
  \<open>\u00XX\<close> (lower-case hexadecimal) for the other control characters.
\<close>

definition hex_digit :: "nat \<Rightarrow> char" where
  "hex_digit d = (if d < 10 then char_of (48 + d) else char_of (87 + d))"

definition quote_char :: "char \<Rightarrow> string" where
  "quote_char c =
     (let n = (of_char c :: nat)
      in if n = 34 then [CHR 0x5C, CHR 0x22]
         else if n = 92 then [CHR 0x5C, CHR 0x5C]
         else if n = 8 then [CHR 0x5C, CHR ''b'']
         else if n = 12 then [CHR 0x5C, CHR ''f'']
         else if n = 10 then [CHR 0x5C, CHR ''n'']
         else if n = 13 then [CHR 0x5C, CHR ''r'']
         else if n = 9 then [CHR 0x5C, CHR ''t'']
         else if n < 32 then [CHR 0x5C, CHR ''u'', CHR ''0'', CHR ''0'',
                              hex_digit (n div 16), hex_digit (n mod 16)]
         else [c])"

definition quote :: "string \<Rightarrow> string" where
  "quote s = [CHR 0x22] @ concat (map quote_char s) @ [CHR 0x22]"

datatype json = JString string | JArray "string list" | JObject "(string \<times> json) list"

fun JSON_stringify :: "json \<Rightarrow> string" where
  "JSON_stringify (JString s) = quote s"
| "JSON_stringify (JArray xs) = ''['' @ join '','' (map quote xs) @ '']''"
| "JSON_stringify (JObject ms) =
     ''{'' @ join '','' (map (\<lambda>m. quote (fst m) @ '':'' @ JSON_stringify (snd m)) ms) @ ''}''"

section \<open>Requests, responses and servers\<close>

text \<open>
  What a handler reads of Node's \<open>IncomingMessage\<close>: \<open>req.url\<close> (the request target as
  received, query string included), \<open>req.method\<close> and \<open>req.headers\<close>, an object from
  lower-cased header names to values, given here by its own properties in their order.
  A value is a string, except that of \<open>set-cookie\<close>, which is an array of strings.
\<close>

datatype header_value = Single string | Multiple "string list"

record request =
  url :: string
  "method" :: string
  headers :: "(string \<times> header_value) list"

text \<open>\<open>req.headers[name]\<close>: \<open>undefined\<close> (here \<open>None\<close>) when there is no such header.\<close>

definition header :: "request \<Rightarrow> string \<Rightarrow> header_value option" where
  "header req name = map_of (headers req) name"

text \<open>
  What a handler hands to Node's \<open>ServerResponse\<close>: the status code, the headers that
  \<open>writeHead\<close> was given and the chunks written, in order. A fresh response has status
  200 and nothing else. The HTTP layer under it (framing, Node's own refusal of a status
  outside 100 to 999) is not part of the model.
\<close>

datatype chunk = Text string | Buffer "8 word list"

record response =
  statusCode :: number
  responseHeaders :: "(string \<times> string) list"
  body :: "chunk list"

definition fresh_response :: response where
  "fresh_response = \<lparr>statusCode = Finite 200, responseHeaders = [], body = []\<rparr>"

definition writeHead :: "number \<Rightarrow> (string \<times> string) list \<Rightarrow> response \<Rightarrow> response" where
  "writeHead code hs res = res\<lparr>statusCode := code, responseHeaders := responseHeaders res @ hs\<rparr>"

definition res_write :: "chunk \<Rightarrow> response \<Rightarrow> response" where
  "res_write c res = res\<lparr>body := body res @ [c]\<rparr>"

text \<open>\<open>res.write(chunk)\<close> is \<open>res_write\<close>, \<open>res.end(data)\<close> is \<open>res_end\<close>; \<open>res.end()\<close> is \<open>res_end None\<close>.\<close>

definition res_end :: "chunk option \<Rightarrow> response \<Rightarrow> response" where
  "res_end data res = (case data of None \<Rightarrow> res | Some c \<Rightarrow> res_write c res)"

text \<open>The bytes of a body: a string is sent in UTF-8, a buffer as it is.\<close>

definition utf8 :: "char \<Rightarrow> 8 word list" where
  "utf8 c =
     (let n = (of_char c :: nat)
      in if n < 128 then [of_nat n] else [of_nat (192 + n div 64), of_nat (128 + n mod 64)])"

fun chunk_bytes :: "chunk \<Rightarrow> 8 word list" where
  "chunk_bytes (Text s) = concat (map utf8 s)"
| "chunk_bytes (Buffer bs) = bs"

definition body_bytes :: "response \<Rightarrow> 8 word list" where
  "body_bytes res = concat (map chunk_bytes (body res))"

text \<open>
  \<open>Buffer.alloc(size)\<close>: a range error unless \<open>0 \<le> size \<le> kMaxLength\<close>, else
  \<open>\<lfloor>size\<rfloor>\<close> zero bytes. \<open>kMaxLength\<close> (\<open>buffer.constants.MAX_LENGTH\<close>, a positive
  integer) depends on the version of Node and is a parameter.
\<close>

datatype error = ERR_OUT_OF_RANGE number

definition Buffer_alloc :: "int \<Rightarrow> number \<Rightarrow> error + 8 word list" where
  "Buffer_alloc kMaxLength n =
     (case n of
        Finite x \<Rightarrow>
          if 0 \<le> x \<and> x \<le> of_int kMaxLength then Inr (replicate (nat \<lfloor>x\<rfloor>) 0)
          else Inl (ERR_OUT_OF_RANGE n)
      | _ \<Rightarrow> Inl (ERR_OUT_OF_RANGE n))"

text \<open>
  A server object, as far as the router reads it: \<open>server.url\<close>, which the
  \<open>listening\<close> handler sets once the port is bound and which is \<open>undefined\<close> (here
  \<open>None\<close>) before.
\<close>

record server =
  server_url :: "string option"

section \<open>The redirect fixture: \<open>createRedirectServer\<close>\<close>

text \<open>
  The \<open>request\<close> listener of \<open>createRedirectServer\<close>. The two events it and
  \<open>createHTTPServer\<close> emit before (the path without its query string, and \<open>hit\<close>) have
  no listener in this repository and leave the response as it is.
\<close>

definition createRedirectServer_on_request :: "request \<Rightarrow> response" where
  "createRedirectServer_on_request req =
     (if \<not> test_redirect (url req) then res_end None fresh_response
      else
        (let urlTokens = split CHR ''/'' (url req);
             numberOfRedirects = parseInt (at_index urlTokens (int (length urlTokens) - 2));
             responseCode = parseInt (at_index urlTokens (int (length urlTokens) - 1));
             redirectURL =
               (if number_greater numberOfRedirects (Finite 1)
                then join ''/'' (Array_slice urlTokens 0 (- 2)) @ ''/''
                       @ Number_toString (number_minus numberOfRedirects (Finite 1))
                       @ ''/'' @ Number_toString responseCode
                else join ''/'' (Array_slice urlTokens 0 (- 2)) @ ''/'')
         in res_end None (writeHead responseCode [(''location'', redirectURL)] fresh_response)))"

text \<open>
  A client that follows redirects: it sends a \<open>GET\<close> for a path and, while the response
  carries a \<open>location\<close> header, requests that location next, for at most the given number
  of requests. The result is the responses in the order received.
\<close>

fun follow :: "nat \<Rightarrow> string \<Rightarrow> response list" where
  "follow 0 path = []"
| "follow (Suc n) path =
     (let res = createRedirectServer_on_request \<lparr>url = path, method = ''GET'', headers = []\<rparr>
      in res # (case map_of (responseHeaders res) ''location'' of
                  None \<Rightarrow> []
                | Some next_path \<Rightarrow> follow n next_path))"

section \<open>The bytes fixture: \<open>createBytesServer\<close>\<close>

text \<open>
  The \<open>request\<close> listener of \<open>createBytesServer\<close>. An exception of \<open>Buffer.alloc\<close>
  leaves the listener before anything is written.
\<close>

definition createBytesServer_on_request :: "int \<Rightarrow> request \<Rightarrow> error + response" where
  "createBytesServer_on_request kMaxLength req =
     (let path = split CHR ''/'' (url req);
          n = (case at_index path (int (length path) - 1) of
                 None \<Rightarrow> NaN
               | Some segment \<Rightarrow> Number segment);
          bytes = (if truthy n then n else Finite 0)
      in case Buffer_alloc kMaxLength bytes of
           Inl e \<Rightarrow> Inl e
         | Inr buffer \<Rightarrow>
             Inr (res_end None (res_write (Buffer buffer) (writeHead (Finite 200) [] fresh_response))))"

section \<open>The router: \<open>getTargetURL\<close> and \<open>responseHandler\<close>\<close>

text \<open>
  \<open>SERVERS\<close> when requests arrive: the four properties of the object literal and
  \<open>ssl_renegotiation\<close>, which the module adds while it loads.
\<close>

record servers =
  raw :: server
  bytes :: server
  redirect :: server
  graphql :: server
  ssl_renegotiation :: server

text \<open>
  \<open>SERVERS[key]\<close> reads a property of an ordinary object: an own property if there is
  one, else a property inherited from \<open>Object.prototype\<close>, else \<open>undefined\<close>. The
  inherited ones are functions, and \<open>__proto__\<close> is \<open>Object.prototype\<close> itself: each is
  truthy and has no \<open>url\<close>.
\<close>

datatype property = Undefined | Own server | Inherited

definition Object_prototype :: "string list" where
  "Object_prototype =
     [''constructor'', ''__defineGetter__'', ''__defineSetter__'', ''hasOwnProperty'',
      ''__lookupGetter__'', ''__lookupSetter__'', ''isPrototypeOf'', ''propertyIsEnumerable'',
      ''toString'', ''valueOf'', ''__proto__'', ''toLocaleString'']"

definition get :: "servers \<Rightarrow> string \<Rightarrow> property" where
  "get SERVERS key =
     (if key = ''raw'' then Own (raw SERVERS)
      else if key = ''bytes'' then Own (bytes SERVERS)
      else if key = ''redirect'' then Own (redirect SERVERS)
      else if key = ''graphql'' then Own (graphql SERVERS)
      else if key = ''ssl_renegotiation'' then Own (ssl_renegotiation SERVERS)
      else if key \<in> set Object_prototype then Inherited
      else Undefined)"

text \<open>The property key of a value used as an index: \<open>ToString\<close> of it.\<close>

definition property_key :: "header_value option \<Rightarrow> string" where
  "property_key v =
     (case v of
        None \<Rightarrow> ''undefined''
      | Some (Single s) \<Rightarrow> s
      | Some (Multiple xs) \<Rightarrow> join '','' xs)"

text \<open>\<open>target.url\<close> of a truthy \<open>target\<close>.\<close>

definition url_of :: "property \<Rightarrow> string option" where
  "url_of target = (case target of Own s \<Rightarrow> server_url s | _ \<Rightarrow> None)"

definition getTargetURL :: "servers \<Rightarrow> request \<Rightarrow> string option" where
  "getTargetURL SERVERS req =
     (let path = url req;
          target = get SERVERS (property_key (header req ''target-server''))
      in if target \<noteq> Undefined then url_of target
         else if path = ''/raw'' \<or> startsWith path ''/raw/'' then server_url (raw SERVERS)
         else if path = ''/graphql'' then server_url (graphql SERVERS)
         else if test_redirect path then server_url (redirect SERVERS)
         else if test_bytes path then server_url (bytes SERVERS)
         else None)"

text \<open>
  What the \<open>request\<close> listener of \<open>responseHandler\<close> does with a request: it hands it
  to \<open>proxy.web\<close> with a target, or answers it itself. A target is truthy when it is a
  string and not empty.
\<close>

datatype outcome = Proxy_web string | Responded response

definition headers_json :: "(string \<times> header_value) list \<Rightarrow> json" where
  "headers_json hs =
     JObject (map (\<lambda>h. (fst h, case snd h of Single s \<Rightarrow> JString s | Multiple xs \<Rightarrow> JArray xs)) hs)"

definition responseHandler :: "servers \<Rightarrow> request \<Rightarrow> outcome" where
  "responseHandler SERVERS req =
     (let target = getTargetURL SERVERS req;
          echo = res_end
            (Some (Text (JSON_stringify (JObject
               [(''url'', JString (url req)),
                (''method'', JString (method req)),
                (''headers'', headers_json (headers req))]))))
            (writeHead (Finite 200) [(''content-type'', ''application/json'')] fresh_response)
      in case target of
           None \<Rightarrow> Responded echo
         | Some t \<Rightarrow> if t \<noteq> [] then Proxy_web t else Responded echo)"

text \<open>
  \<open>SERVERS\<close> once every listener is bound: the raw echo server and the renegotiation
  server on their fixed ports, the other three on ports the system chose.
\<close>

definition SERVERS_listening :: servers where
  "SERVERS_listening =
     \<lparr>raw = \<lparr>server_url = Some ''http://localhost:8082''\<rparr>,
      bytes = \<lparr>server_url = Some ''http://localhost:49152''\<rparr>,
      redirect = \<lparr>server_url = Some ''http://localhost:49153''\<rparr>,
      graphql = \<lparr>server_url = Some ''http://localhost:49154''\<rparr>,
      ssl_renegotiation = \<lparr>server_url = Some ''https://localhost:9091''\<rparr>\<rparr>"

section \<open>Facts about the built-ins\<close>

subsection \<open>Splitting and joining\<close>

lemma split_not_Nil: "split sep s \<noteq> []"
  by (induction s) (auto split: list.splits)

lemma split_no_sep: "sep \<notin> set s \<Longrightarrow> split sep s = [s]"
  by (induction s) auto

lemma split_append_sep:
  "sep \<notin> set t \<Longrightarrow> split sep (p @ sep # t) = split sep p @ [t]"
proof (induction p)
  case Nil
  then show ?case by (simp add: split_no_sep)
next
  case (Cons c p)
  obtain x xs where "split sep p = x # xs"
    using split_not_Nil [of sep p] by (cases "split sep p") auto
  with Cons show ?case by simp
qed

lemma join_Cons_Cons: "join sep ((c # t) # ts) = c # join sep (t # ts)"
  by (cases ts) auto

lemma join_split: "join [sep] (split sep s) = s"
proof (induction s)
  case Nil
  show ?case by simp
next
  case (Cons c s)
  obtain x xs where eq: "split sep s = x # xs"
    using split_not_Nil [of sep s] by (cases "split sep s") auto
  with Cons show ?case by (simp add: join_Cons_Cons)
qed

lemma slice_butlast2: "Array_slice (xs @ [a, b]) 0 (- 2) = xs"
  by (simp add: Array_slice_def)

lemma at_index_last: "at_index (xs @ [a, b]) (int (length (xs @ [a, b])) - 1) = Some b"
proof -
  have "nat (int (length (xs @ [a, b])) - 1) = Suc (length xs)" by simp
  then show ?thesis by (simp add: at_index_def nth_append)
qed

lemma at_index_last2: "at_index (xs @ [a, b]) (int (length (xs @ [a, b])) - 2) = Some a"
proof -
  have "nat (int (length (xs @ [a, b])) - 2) = length xs" by simp
  then show ?thesis by (simp add: at_index_def nth_append)
qed

lemma slash_not_digit: "\<not> is_digit CHR ''/''"
  by (simp add: is_digit_def)

subsection \<open>The redirect pattern\<close>

lemma digit_not_slash: "is_digit c \<Longrightarrow> c \<noteq> CHR ''/''"
  by (auto simp: is_digit_def)

lemma digits_no_slash: "list_all is_digit ds \<Longrightarrow> CHR ''/'' \<notin> set ds"
  by (auto simp: list_all_iff dest: digit_not_slash)

lemma split_url:
  assumes "list_all is_digit h" "list_all is_digit c"
  shows "split CHR ''/'' (p @ ''/'' @ h @ ''/'' @ c) = split CHR ''/'' p @ [h, c]"
proof -
  have "split CHR ''/'' ((p @ ''/'' @ h) @ CHR ''/'' # c) = split CHR ''/'' (p @ CHR ''/'' # h) @ [c]"
    using split_append_sep [of "CHR ''/''" c "p @ ''/'' @ h"] digits_no_slash [OF assms(2)] by simp
  also have "split CHR ''/'' (p @ CHR ''/'' # h) = split CHR ''/'' p @ [h]"
    using split_append_sep [of "CHR ''/''" h p] digits_no_slash [OF assms(1)] by simp
  finally show ?thesis by simp
qed

lemma test_redirect_suffix:
  assumes "h \<noteq> []" "list_all is_digit h" "length c = 3" "list_all is_digit c"
  shows "test_redirect (p @ ''/'' @ h @ ''/'' @ c)"
proof -
  obtain c1 c2 c3 where c: "c = [c1, c2, c3]"
    using assms(3) by (cases c; cases "tl c"; cases "tl (tl c)"; cases "tl (tl (tl c))") auto
  have all: "\<And>x. x \<in> set (rev h) \<Longrightarrow> is_digit x"
    using assms(2) by (auto simp: list_all_iff)
  have "takeWhile is_digit (rev h @ CHR ''/'' # rev p) = rev h @ takeWhile is_digit (CHR ''/'' # rev p)"
    by (rule takeWhile_append2) (rule all)
  then have tw: "takeWhile is_digit (rev h @ CHR ''/'' # rev p) = rev h"
    by (simp add: slash_not_digit)
  have "dropWhile is_digit (rev h @ CHR ''/'' # rev p) = dropWhile is_digit (CHR ''/'' # rev p)"
    by (rule dropWhile_append2) (rule all)
  then have dw: "dropWhile is_digit (rev h @ CHR ''/'' # rev p) = CHR ''/'' # rev p"
    by (simp add: slash_not_digit)
  show ?thesis
    using assms(1,4) by (simp add: test_redirect_def c tw dw)
qed

lemma test_redirect_iff:
  "test_redirect s \<longleftrightarrow>
     (\<exists>p h c. s = p @ ''/'' @ h @ ''/'' @ c \<and> h \<noteq> [] \<and> list_all is_digit h \<and>
              length c = 3 \<and> list_all is_digit c)"
proof
  assume t: "test_redirect s"
  then obtain c3 c2 c1 r where rs: "rev s = c3 # c2 # c1 # CHR ''/'' # r"
    and d: "is_digit c1" "is_digit c2" "is_digit c3"
    and tw: "takeWhile is_digit r \<noteq> []"
    and dw: "case dropWhile is_digit r of [] \<Rightarrow> False | x # _ \<Rightarrow> x = CHR ''/''"
    by (auto simp: test_redirect_def split: list.splits)
  from dw obtain r' where r': "dropWhile is_digit r = CHR ''/'' # r'"
    by (auto split: list.splits)
  have "r = takeWhile is_digit r @ CHR ''/'' # r'"
    using takeWhile_dropWhile_id [of is_digit r] r' by simp
  then have "rev s = [c3, c2, c1] @ ''/'' @ takeWhile is_digit r @ ''/'' @ r'"
    using rs by simp
  then have "rev (rev s) = rev ([c3, c2, c1] @ ''/'' @ takeWhile is_digit r @ ''/'' @ r')"
    by (rule arg_cong)
  then have s: "s = rev r' @ ''/'' @ rev (takeWhile is_digit r) @ ''/'' @ [c1, c2, c3]"
    by simp
  have "list_all is_digit (rev (takeWhile is_digit r))"
    by (auto simp: list_all_iff dest: set_takeWhileD)
  with s tw d show "\<exists>p h c. s = p @ ''/'' @ h @ ''/'' @ c \<and> h \<noteq> [] \<and> list_all is_digit h \<and>
              length c = 3 \<and> list_all is_digit c"
    by (intro exI [of _ "rev r'"] exI [of _ "rev (takeWhile is_digit r)"] exI [of _ "[c1, c2, c3]"]) simp
next
  assume "\<exists>p h c. s = p @ ''/'' @ h @ ''/'' @ c \<and> h \<noteq> [] \<and> list_all is_digit h \<and>
              length c = 3 \<and> list_all is_digit c"
  then show "test_redirect s"
    using test_redirect_suffix by blast
qed

subsection \<open>Digits and numbers up to \<open>2\<^sup>5\<^sup>3\<close>\<close>

lemma digit_value_range: "is_digit c \<Longrightarrow> 0 \<le> digit_value c \<and> digit_value c < 10"
  by (auto simp: is_digit_def digit_value_def)


lemma digits_value_3:
  "digits_value [c1, c2, c3] = 100 * digit_value c1 + 10 * digit_value c2 + digit_value c3"
  by (simp add: digits_value_def)

lemma foldl_digits_nonneg:
  "list_all is_digit ds \<Longrightarrow> 0 \<le> a \<Longrightarrow> 0 \<le> foldl (\<lambda>a c. 10 * a + digit_value c) a ds"
proof (induction ds arbitrary: a)
  case Nil
  then show ?case by simp
next
  case (Cons d ds)
  then have "0 \<le> 10 * a + digit_value d"
    using digit_value_range [of d] by simp
  with Cons show ?case by simp
qed

lemma digits_value_nonneg: "list_all is_digit ds \<Longrightarrow> 0 \<le> digits_value ds"
  unfolding digits_value_def by (rule foldl_digits_nonneg) simp_all

lemma length_3: "length c = 3 \<Longrightarrow> \<exists>c1 c2 c3. c = [c1, c2, c3]"
  by (cases c; cases "tl c"; cases "tl (tl c)"; cases "tl (tl (tl c))") auto

lemma digits_value_code_less:
  assumes "length c = 3" "list_all is_digit c"
  shows "digits_value c < 1000"
proof -
  obtain c1 c2 c3 where c: "c = [c1, c2, c3]" using length_3 [OF assms(1)] by blast
  have "digit_value c1 < 10" "digit_value c2 < 10" "digit_value c3 < 10"
    using assms(2) by (simp_all add: c digit_value_range)
  then show ?thesis by (simp add: c digits_value_3)
qed

lemma decimal_digit: "n < 10 \<Longrightarrow> decimal n = [digit_char n]"
  by (simp add: decimal.simps)




lemma digit_char_numerals:
  "digit_char 0 = CHR ''0''" "digit_char 1 = CHR ''1''" "digit_char 2 = CHR ''2''"
  "digit_char 3 = CHR ''3''" "digit_char 4 = CHR ''4''" "digit_char 5 = CHR ''5''"
  "digit_char 6 = CHR ''6''" "digit_char 7 = CHR ''7''" "digit_char 8 = CHR ''8''"
  "digit_char 9 = CHR ''9''"
  by code_simp+

lemmas digit_eval = is_digit_def digits_value_def digit_value_def decimal.simps digit_char_numerals

lemma digit_not_white_space: "is_digit c \<Longrightarrow> \<not> is_white_space c"
  by (auto simp: is_digit_def is_white_space_def)

lemma digit_not_sign: "is_digit c \<Longrightarrow> c \<noteq> CHR ''-'' \<and> c \<noteq> CHR ''+''"
  by (auto simp: is_digit_def)

lemma to_double_int: "0 \<le> n \<Longrightarrow> n \<le> 2 ^ 53 \<Longrightarrow> to_double (of_int n) = Finite (of_int n)"
proof -
  assume "0 \<le> n" and "n \<le> 2 ^ 53"
  then have "(of_int n :: rat) \<le> of_int (2 ^ 53)" and "(0::rat) \<le> of_int n"
    by (simp_all only: of_int_le_iff of_int_0_le_iff)
  then have "\<bar>of_int n :: rat\<bar> \<le> 2 ^ 53" by simp
  moreover have "is_integer (of_int n)" by (simp add: is_integer_def)
  ultimately show ?thesis by (simp add: to_double_def)
qed

lemma parseInt_digits:
  assumes "ds \<noteq> []" "list_all is_digit ds"
  shows "parseInt (Some ds) = to_double (of_int (digits_value ds))"
proof -
  obtain d ds' where ds: "ds = d # ds'" using assms(1) by (cases ds) auto
  have d: "is_digit d" using assms(2) by (simp add: ds)
  have ws: "dropWhile is_white_space ds = ds"
    using d by (simp add: ds digit_not_white_space)
  have tw: "takeWhile is_digit ds = ds"
    using assms(2) by (simp add: list_all_iff)
  show ?thesis
    using digit_not_sign [OF d] assms(1) by (simp add: parseInt_def ToString_def ws Let_def tw) (simp add: ds)
qed

lemma Number_toString_int:
  "0 \<le> n \<Longrightarrow> n \<le> 2 ^ 53 \<Longrightarrow> Number_toString (Finite (of_int n)) = decimal n"
proof -
  assume n0: "0 \<le> n" and n: "n \<le> 2 ^ 53"
  then have "(of_int n :: rat) \<le> of_int (2 ^ 53)" by (simp only: of_int_le_iff)
  then have le: "(of_int n :: rat) \<le> 2 ^ 53" by simp
  show ?thesis
  proof (cases "n = 0")
    case True
    then show ?thesis by (simp add: decimal_digit digit_char_numerals)
  next
    case False
    then have "\<not> (of_int n :: rat) < 0" using n0 by simp
    with False show ?thesis using le by (simp add: positive_toString_def is_integer_def)
  qed
qed

lemma minus_one_int:
  assumes "1 < n" "n \<le> 2 ^ 53"
  shows "number_minus (Finite (of_int n)) (Finite 1) = Finite (of_int (n - 1))"
proof -
  have eq: "(of_int n :: rat) - 1 = of_int (n - 1)" by simp
  have le: "n - 1 \<le> 2 ^ 53" "0 \<le> n - 1" using assms by simp_all
  have "number_minus (Finite (of_int n)) (Finite 1) = to_double (of_int n - 1)"
    by (simp only: number_minus.simps)
  also have "\<dots> = to_double (of_int (n - 1))" by (simp only: eq)
  also have "\<dots> = Finite (of_int (n - 1))" using le(2,1) by (rule to_double_int)
  finally show ?thesis .
qed

section \<open>The redirect fixture answers\<close>


lemma redirect_response:
  assumes h: "h \<noteq> []" "list_all is_digit h" and c: "length c = 3" "list_all is_digit c"
    and safe: "digits_value h \<le> 2 ^ 53"
    and u: "url req = p @ ''/'' @ h @ ''/'' @ c"
  shows "createRedirectServer_on_request req =
    \<lparr>statusCode = Finite (of_int (digits_value c)),
     responseHeaders =
       [(''location'',
         if 1 < digits_value h
         then p @ ''/'' @ decimal (digits_value h - 1) @ ''/'' @ decimal (digits_value c)
         else p @ ''/'')],
     body = []\<rparr>"
proof -
  have t: "test_redirect (url req)"
    unfolding u using h c by (rule test_redirect_suffix)
  have s: "split CHR ''/'' (url req) = split CHR ''/'' p @ [h, c]"
    unfolding u using h(2) c(2) by (rule split_url)
  have c0: "c \<noteq> []" using c(1) by auto
  have clt: "digits_value c \<le> 2 ^ 53"
    using digits_value_code_less [OF c] by simp
  have h0: "0 \<le> digits_value h" and c0': "0 \<le> digits_value c"
    using h(2) c(2) by (simp_all add: digits_value_nonneg)
  have n: "parseInt (Some h) = Finite (of_int (digits_value h))"
    using h safe h0 by (simp add: parseInt_digits to_double_int)
  have r: "parseInt (Some c) = Finite (of_int (digits_value c))"
    using c0 c(2) clt c0' by (simp add: parseInt_digits to_double_int)
  have j: "join ''/'' (split CHR ''/'' p) = p" by (rule join_split)
  have a2: "at_index (split CHR ''/'' (url req)) (int (length (split CHR ''/'' (url req))) - 2) = Some h"
    by (simp only: s at_index_last2)
  have a1: "at_index (split CHR ''/'' (url req)) (int (length (split CHR ''/'' (url req))) - 1) = Some c"
    by (simp only: s at_index_last)
  have sl: "Array_slice (split CHR ''/'' (url req)) 0 (- 2) = split CHR ''/'' p"
    by (simp only: s slice_butlast2)
  have g: "number_greater (Finite (of_int (digits_value h))) (Finite 1) \<longleftrightarrow> 1 < digits_value h"
    by simp
  have sc: "Number_toString (Finite (of_int (digits_value c))) = decimal (digits_value c)"
    using c0' clt by (rule Number_toString_int)
  have eq: "createRedirectServer_on_request req =
    \<lparr>statusCode = Finite (of_int (digits_value c)),
     responseHeaders =
       [(''location'',
         if 1 < digits_value h
         then p @ ''/'' @ Number_toString (number_minus (Finite (of_int (digits_value h))) (Finite 1))
                @ ''/'' @ decimal (digits_value c)
         else p @ ''/'')],
     body = []\<rparr>"
    by (simp only: createRedirectServer_on_request_def Let_def a1 a2 sl n r j g sc)
       (simp add: t res_end_def writeHead_def fresh_response_def del: number_minus.simps)
  show ?thesis
  proof (cases "1 < digits_value h")
    case True
    have m: "number_minus (Finite (of_int (digits_value h))) (Finite 1) = Finite (of_int (digits_value h - 1))"
      using True safe by (rule minus_one_int)
    have le: "0 \<le> digits_value h - 1" "digits_value h - 1 \<le> 2 ^ 53" using True safe by simp_all
    show ?thesis
      unfolding eq m Number_toString_int [OF le] by (rule refl)
  next
    case False
    then show ?thesis unfolding eq by simp
  qed
qed

lemma terminal_response:
  "\<not> test_redirect (url req) \<Longrightarrow>
     createRedirectServer_on_request req = \<lparr>statusCode = Finite 200, responseHeaders = [], body = []\<rparr>"
  by (simp add: createRedirectServer_on_request_def res_end_def fresh_response_def)




text \<open>
  Claim C4. A request whose path does not end in a slash, one or more digits, a slash and
  exactly three digits gets the untouched response: status 200, no header, an empty
  body; so never a 4xx.
\<close>

theorem redirect_terminal:
  assumes "\<not> (\<exists>p h c. url req = p @ ''/'' @ h @ ''/'' @ c \<and> h \<noteq> [] \<and> list_all is_digit h \<and>
                    length c = 3 \<and> list_all is_digit c)"
  shows "createRedirectServer_on_request req =
           \<lparr>statusCode = Finite 200, responseHeaders = [], body = []\<rparr> \<and>
         body_bytes (createRedirectServer_on_request req) = []"
proof -
  have "\<not> test_redirect (url req)"
    unfolding test_redirect_iff by (rule assms)
  then have "createRedirectServer_on_request req =
      \<lparr>statusCode = Finite 200, responseHeaders = [], body = []\<rparr>"
    by (rule terminal_response)
  then show ?thesis by (simp add: body_bytes_def)
qed

theorem redirect_terminal_witness:
  "createRedirectServer_on_request \<lparr>url = ''/a/b/'', method = ''GET'', headers = []\<rparr> =
     \<lparr>statusCode = Finite 200, responseHeaders = [], body = []\<rparr> \<and>
   body_bytes (createRedirectServer_on_request \<lparr>url = ''/a/b/'', method = ''GET'', headers = []\<rparr>) = []"
proof -
  let ?req = "\<lparr>url = ''/a/b/'', method = ''GET'', headers = []\<rparr>"
  have "\<not> test_redirect (url ?req)"
    by (simp add: test_redirect_def is_digit_def)
  then have "\<not> (\<exists>p h c. url ?req = p @ ''/'' @ h @ ''/'' @ c \<and> h \<noteq> [] \<and> list_all is_digit h \<and>
                    length c = 3 \<and> list_all is_digit c)"
    unfolding test_redirect_iff .
  then show ?thesis by (rule redirect_terminal)
qed

text \<open>
  Claim C5. A client that requests \<open>/a/b/5/301\<close> and follows each \<open>location\<close> receives
  exactly five redirects, the first with status 301 to \<open>/a/b/4/301\<close> and the fifth to
  \<open>/a/b/\<close>, and then status 200 with an empty body for \<open>/a/b/\<close>, where the chain ends
  however many more requests the client would allow.
\<close>

theorem redirect_chain_5:
  "follow (6 + n) ''/a/b/5/301'' =
     [\<lparr>statusCode = Finite 301, responseHeaders = [(''location'', ''/a/b/4/301'')], body = []\<rparr>,
      \<lparr>statusCode = Finite 301, responseHeaders = [(''location'', ''/a/b/3/301'')], body = []\<rparr>,
      \<lparr>statusCode = Finite 301, responseHeaders = [(''location'', ''/a/b/2/301'')], body = []\<rparr>,
      \<lparr>statusCode = Finite 301, responseHeaders = [(''location'', ''/a/b/1/301'')], body = []\<rparr>,
      \<lparr>statusCode = Finite 301, responseHeaders = [(''location'', ''/a/b/'')], body = []\<rparr>,
      \<lparr>statusCode = Finite 200, responseHeaders = [], body = []\<rparr>]"
proof -
  let ?r = "\<lambda>path. createRedirectServer_on_request \<lparr>url = path, method = ''GET'', headers = []\<rparr>"
  let ?to = "\<lambda>location. \<lparr>statusCode = Finite 301, responseHeaders = [(''location'', location)], body = []\<rparr>"
  have h5: "?r ''/a/b/5/301'' = ?to ''/a/b/4/301''"
    using redirect_response [of "''5''" "''301''" "\<lparr>url = ''/a/b/5/301'', method = ''GET'', headers = []\<rparr>" "''/a/b''"]
    by (simp add: digit_eval)
  have h4: "?r ''/a/b/4/301'' = ?to ''/a/b/3/301''"
    using redirect_response [of "''4''" "''301''" "\<lparr>url = ''/a/b/4/301'', method = ''GET'', headers = []\<rparr>" "''/a/b''"]
    by (simp add: digit_eval)
  have h3: "?r ''/a/b/3/301'' = ?to ''/a/b/2/301''"
    using redirect_response [of "''3''" "''301''" "\<lparr>url = ''/a/b/3/301'', method = ''GET'', headers = []\<rparr>" "''/a/b''"]
    by (simp add: digit_eval)
  have h2: "?r ''/a/b/2/301'' = ?to ''/a/b/1/301''"
    using redirect_response [of "''2''" "''301''" "\<lparr>url = ''/a/b/2/301'', method = ''GET'', headers = []\<rparr>" "''/a/b''"]
    by (simp add: digit_eval)
  have h1: "?r ''/a/b/1/301'' = ?to ''/a/b/''"
    using redirect_response [of "''1''" "''301''" "\<lparr>url = ''/a/b/1/301'', method = ''GET'', headers = []\<rparr>" "''/a/b''"]
    by (simp add: digit_eval)
  have h0: "?r ''/a/b/'' = \<lparr>statusCode = Finite 200, responseHeaders = [], body = []\<rparr>"
    by (rule terminal_response) (simp add: test_redirect_def is_digit_def)
  have six: "6 + n = Suc (Suc (Suc (Suc (Suc (Suc n)))))" by simp
  show ?thesis
    unfolding six by (simp add: h5 h4 h3 h2 h1 h0)
qed




section \<open>The router decides\<close>

lemma get_fixture:
  "get S ''raw'' = Own (raw S)" "get S ''graphql'' = Own (graphql S)"
  "get S ''bytes'' = Own (bytes S)" "get S ''redirect'' = Own (redirect S)"
  by (simp_all add: get_def)

lemma get_undefined: "get S ''undefined'' = Undefined"
  by (simp add: get_def Object_prototype_def)

lemma getTargetURL_override:
  "get S (property_key (header req ''target-server'')) = Own s \<Longrightarrow>
     getTargetURL S req = server_url s"
  by (simp add: getTargetURL_def url_of_def)

lemma getTargetURL_path:
  assumes "get S (property_key (header req ''target-server'')) = Undefined"
  shows "getTargetURL S req =
     (if url req = ''/raw'' \<or> startsWith (url req) ''/raw/'' then server_url (raw S)
      else if url req = ''/graphql'' then server_url (graphql S)
      else if test_redirect (url req) then server_url (redirect S)
      else if test_bytes (url req) then server_url (bytes S)
      else None)"
  using assms by (simp add: getTargetURL_def Let_def)

lemma responseHandler_proxy:
  "getTargetURL S req = Some t \<Longrightarrow> t \<noteq> [] \<Longrightarrow> responseHandler S req = Proxy_web t"
  by (simp add: responseHandler_def)

lemma responseHandler_echo:
  "getTargetURL S req = None \<or> getTargetURL S req = Some [] \<Longrightarrow>
     responseHandler S req = Responded
       \<lparr>statusCode = Finite 200,
        responseHeaders = [(''content-type'', ''application/json'')],
        body = [Text (JSON_stringify (JObject
                 [(''url'', JString (url req)),
                  (''method'', JString (method req)),
                  (''headers'', headers_json (headers req))]))]\<rparr>"
  by (auto simp: responseHandler_def res_end_def res_write_def writeHead_def fresh_response_def)

lemma question_not_digit: "\<not> is_digit CHR ''?''"
  by (simp add: is_digit_def)

lemma query_not_redirect:
  assumes "CHR ''/'' \<notin> set q"
  shows "\<not> test_redirect (base @ ''?'' @ q)"
proof
  define w where "w = rev (base @ ''?'' @ q)"
  have w: "w = rev q @ CHR ''?'' # rev base" by (simp add: w_def)
  assume "test_redirect (base @ ''?'' @ q)"
  then obtain c3 c2 c1 r where rs: "w = c3 # c2 # c1 # CHR ''/'' # r"
    and d: "is_digit c1" "is_digit c2" "is_digit c3"
    unfolding test_redirect_def w_def [symmetric] by (auto split: list.splits)
  have short: "takeWhile (\<lambda>x. x \<noteq> CHR ''/'') w = [c3, c2, c1]"
    using d by (simp add: rs digit_not_slash)
  have "takeWhile (\<lambda>x. x \<noteq> CHR ''/'') w =
      rev q @ takeWhile (\<lambda>x. x \<noteq> CHR ''/'') (CHR ''?'' # rev base)"
    unfolding w by (rule takeWhile_append2) (use assms in auto)
  then have "CHR ''?'' \<in> set (takeWhile (\<lambda>x. x \<noteq> CHR ''/'') w)"
    by simp
  then have "CHR ''?'' \<in> set [c3, c2, c1]"
    by (simp only: short)
  then show False using d question_not_digit by auto
qed

lemma query_not_bytes:
  assumes "CHR ''?'' \<in> set s"
  shows "\<not> test_bytes s"
proof
  assume t: "test_bytes s"
  have "set s = set (take 7 s) \<union> set (drop 7 s)"
    by (metis append_take_drop_id set_append)
  then have "CHR ''?'' \<in> set (take 7 s) \<or> CHR ''?'' \<in> set (drop 7 s)"
    using assms by simp
  then show False
  proof
    assume "CHR ''?'' \<in> set (take 7 s)"
    then show False using t by (simp add: test_bytes_def)
  next
    assume "CHR ''?'' \<in> set (drop 7 s)"
    then show False using t question_not_digit by (auto simp: test_bytes_def list_all_iff)
  qed
qed

lemma unregistered_header_ignored:
  assumes "header req ''target-server'' = Some (Single name)"
    and "name \<notin> {''raw'', ''bytes'', ''redirect'', ''graphql'', ''ssl_renegotiation''}"
    and "name \<notin> set Object_prototype"
  shows "getTargetURL S req = getTargetURL S (req\<lparr>headers := []\<rparr>)"
proof -
  have "get S (property_key (header req ''target-server'')) = Undefined"
    using assms by (simp add: property_key_def get_def)
  moreover have "get S (property_key (header (req\<lparr>headers := []\<rparr>) ''target-server'')) = Undefined"
    by (simp add: header_def property_key_def get_undefined)
  ultimately show ?thesis by (simp add: getTargetURL_path)
qed

text \<open>
  Claim C2. When the \<open>target-server\<close> header names \<open>raw\<close>, \<open>graphql\<close>, \<open>bytes\<close> or
  \<open>redirect\<close>, \<open>getTargetURL\<close> returns the URL of that fixture whatever the request path
  is, and once the fixture is bound the request is handed to \<open>proxy.web\<close> with that
  URL, whatever the path.
\<close>

theorem header_override:
  assumes "header req ''target-server'' = Some (Single name)"
    and "name \<in> {''raw'', ''graphql'', ''bytes'', ''redirect''}"
  shows "(\<forall>path.
           getTargetURL S (req\<lparr>url := path\<rparr>) =
             server_url (if name = ''raw'' then raw S
                         else if name = ''graphql'' then graphql S
                         else if name = ''bytes'' then bytes S
                         else redirect S)) \<and>
         (\<forall>path t.
           server_url (if name = ''raw'' then raw S
                       else if name = ''graphql'' then graphql S
                       else if name = ''bytes'' then bytes S
                       else redirect S) = Some t \<and> t \<noteq> [] \<longrightarrow>
           responseHandler S (req\<lparr>url := path\<rparr>) = Proxy_web t)"
proof -
  let ?s = "if name = ''raw'' then raw S
            else if name = ''graphql'' then graphql S
            else if name = ''bytes'' then bytes S
            else redirect S"
  have key: "property_key (header (req\<lparr>url := path\<rparr>) ''target-server'') = name" for path
    using assms(1) by (simp add: header_def property_key_def)
  have "name = ''raw'' \<or> name = ''graphql'' \<or> name = ''bytes'' \<or> name = ''redirect''"
    using assms(2) by (simp only: insert_iff empty_iff simp_thms)
  then have own: "get S name = Own ?s"
    by (elim disjE) (simp_all only: get_fixture, simp_all)
  have target: "getTargetURL S (req\<lparr>url := path\<rparr>) = server_url ?s" for path
    by (rule getTargetURL_override) (simp only: key own)
  show ?thesis
  proof (intro conjI allI impI)
    fix path
    show "getTargetURL S (req\<lparr>url := path\<rparr>) = server_url ?s" by (rule target)
  next
    fix path t
    assume "server_url ?s = Some t \<and> t \<noteq> []"
    then show "responseHandler S (req\<lparr>url := path\<rparr>) = Proxy_web t"
      using target [of path] by (intro responseHandler_proxy) simp_all
  qed
qed

theorem header_override_witness:
  "getTargetURL SERVERS_listening
     \<lparr>url = ''/bytes/10'', method = ''POST'', headers = [(''target-server'', Single ''graphql'')]\<rparr> =
     Some ''http://localhost:49154'' \<and>
   responseHandler SERVERS_listening
     \<lparr>url = ''/bytes/10'', method = ''POST'', headers = [(''target-server'', Single ''graphql'')]\<rparr> =
     Proxy_web ''http://localhost:49154''"
  using header_override [of "\<lparr>url = ''/'', method = ''POST'', headers = [(''target-server'', Single ''graphql'')]\<rparr>"
      "''graphql''" SERVERS_listening]
  by (simp add: header_def SERVERS_listening_def)

text \<open>
  Claim C3, as amended. \<open>getTargetURL\<close> applies its path tests to \<open>req.url\<close> as received,
  query string included; nothing is stripped. With no header override and a URL that is
  neither \<open>/raw\<close>, under \<open>/raw/\<close> nor \<open>/graphql\<close>, the request goes to the redirect
  fixture exactly when the whole URL ends in a slash, digits, a slash and three digits,
  else to the bytes fixture when the whole URL is \<open>/bytes/\<close> and digits, else nowhere.
  In particular a URL with a query string that has no slash in it goes nowhere.
\<close>

theorem classification_whole_url:
  assumes "get S (property_key (header req ''target-server'')) = Undefined"
    and "url req \<noteq> ''/raw''" and "\<not> startsWith (url req) ''/raw/''" and "url req \<noteq> ''/graphql''"
  shows "getTargetURL S req =
           (if \<exists>p h c. url req = p @ ''/'' @ h @ ''/'' @ c \<and> h \<noteq> [] \<and> list_all is_digit h \<and>
                        length c = 3 \<and> list_all is_digit c
            then server_url (redirect S)
            else if test_bytes (url req) then server_url (bytes S)
            else None) \<and>
         (\<forall>base q. url req = base @ ''?'' @ q \<and> CHR ''/'' \<notin> set q \<longrightarrow> getTargetURL S req = None)"
proof (intro conjI allI impI)
  show "getTargetURL S req =
           (if \<exists>p h c. url req = p @ ''/'' @ h @ ''/'' @ c \<and> h \<noteq> [] \<and> list_all is_digit h \<and>
                        length c = 3 \<and> list_all is_digit c
            then server_url (redirect S)
            else if test_bytes (url req) then server_url (bytes S)
            else None)"
    unfolding test_redirect_iff [symmetric] getTargetURL_path [OF assms(1)]
    using assms(2-4) by simp
next
  fix base q
  assume a: "url req = base @ ''?'' @ q \<and> CHR ''/'' \<notin> set q"
  then have "\<not> test_redirect (url req)" by (simp only: query_not_redirect not_False_eq_True)
  moreover have "\<not> test_bytes (url req)" using a by (intro query_not_bytes) simp
  ultimately show "getTargetURL S req = None"
    unfolding getTargetURL_path [OF assms(1)] using assms(2-4) by simp
qed

theorem classification_whole_url_witness:
  "getTargetURL SERVERS_listening \<lparr>url = ''/a/5/301?x=/2/302'', method = ''GET'', headers = []\<rparr> =
     Some ''http://localhost:49153'' \<and>
   getTargetURL SERVERS_listening \<lparr>url = ''/a/5/301?x=1'', method = ''GET'', headers = []\<rparr> = None"
proof -
  have u: "get SERVERS_listening (property_key (header \<lparr>url = u, method = ''GET'', headers = []\<rparr> ''target-server'')) = Undefined" for u
    by (simp add: header_def property_key_def get_undefined)
  have t: "test_redirect ''/a/5/301?x=/2/302''" "\<not> test_redirect ''/a/5/301?x=1''"
    "\<not> test_bytes ''/a/5/301?x=1''"
    by (simp_all add: test_redirect_def test_bytes_def is_digit_def)
  have "getTargetURL SERVERS_listening \<lparr>url = ''/a/5/301?x=/2/302'', method = ''GET'', headers = []\<rparr> =
      server_url (redirect SERVERS_listening)"
    using classification_whole_url [OF u, of "''/a/5/301?x=/2/302''", THEN conjunct1] t(1)
    unfolding test_redirect_iff [symmetric] by (simp add: startsWith_def)
  moreover have "getTargetURL SERVERS_listening \<lparr>url = ''/a/5/301?x=1'', method = ''GET'', headers = []\<rparr> = None"
    using classification_whole_url [OF u, of "''/a/5/301?x=1''", THEN conjunct1] t(2,3)
    unfolding test_redirect_iff [symmetric] by (simp add: startsWith_def)
  ultimately show ?thesis by (simp add: SERVERS_listening_def)
qed

text \<open>
  The claim as first stated fails at \<open>/a/5/301?x=1\<close>: without its query string the path
  matches the redirect pattern, and the request is not sent to the redirect fixture.
\<close>

theorem classification_whole_url_counterexample:
  "test_redirect ''/a/5/301'' \<and>
   server_url (redirect SERVERS_listening) = Some ''http://localhost:49153'' \<and>
   getTargetURL SERVERS_listening \<lparr>url = ''/a/5/301?x=1'', method = ''GET'', headers = []\<rparr> = None"
  by (simp add: getTargetURL_def header_def property_key_def get_undefined startsWith_def
      test_redirect_def test_bytes_def is_digit_def SERVERS_listening_def)

text \<open>
  Claim C7 holds for a header value that is no property of \<open>SERVERS\<close> at all
  (\<open>unregistered_header_ignored\<close> above). The code departs from it for a value that names
  a property inherited from \<open>Object.prototype\<close>: \<open>SERVERS['constructor']\<close> is truthy, its
  \<open>url\<close> is \<open>undefined\<close>, and \<open>getTargetURL\<close> returns that without looking at the path.
  With \<open>target-server: constructor\<close> the request for \<open>/raw\<close> has no target, while the
  same request without the header goes to the raw echo server.
\<close>

theorem inherited_name_not_ignored:
  "getTargetURL SERVERS_listening
     \<lparr>url = ''/raw'', method = ''GET'', headers = [(''target-server'', Single ''constructor'')]\<rparr> = None \<and>
   getTargetURL SERVERS_listening \<lparr>url = ''/raw'', method = ''GET'', headers = []\<rparr> =
     Some ''http://localhost:8082''"
  by (simp add: getTargetURL_def header_def property_key_def get_def Object_prototype_def url_of_def
      SERVERS_listening_def)

text \<open>
  Claim C8. A request that no rule of \<open>getTargetURL\<close> matches, and any request for which
  \<open>getTargetURL\<close> returns \<open>undefined\<close> because the chosen server has no \<open>url\<close> yet, is
  answered by the router itself: status 200, \<open>content-type: application/json\<close> and the
  JSON text of \<open>{url, method, headers}\<close>; nothing is handed to \<open>proxy.web\<close>.
\<close>

theorem default_echo:
  assumes "(get S (property_key (header req ''target-server'')) = Undefined \<and>
            url req \<noteq> ''/raw'' \<and> \<not> startsWith (url req) ''/raw/'' \<and> url req \<noteq> ''/graphql'' \<and>
            \<not> test_redirect (url req) \<and> \<not> test_bytes (url req)) \<or>
           getTargetURL S req = None"
  shows "responseHandler S req = Responded
       \<lparr>statusCode = Finite 200,
        responseHeaders = [(''content-type'', ''application/json'')],
        body = [Text (JSON_stringify (JObject
                 [(''url'', JString (url req)),
                  (''method'', JString (method req)),
                  (''headers'', headers_json (headers req))]))]\<rparr> \<and>
         (\<forall>target. responseHandler S req \<noteq> Proxy_web target)"
proof -
  have "getTargetURL S req = None"
    using assms by (auto simp: getTargetURL_path)
  then have "responseHandler S req = Responded
       \<lparr>statusCode = Finite 200,
        responseHeaders = [(''content-type'', ''application/json'')],
        body = [Text (JSON_stringify (JObject
                 [(''url'', JString (url req)),
                  (''method'', JString (method req)),
                  (''headers'', headers_json (headers req))]))]\<rparr>"
    by (intro responseHandler_echo) simp
  then show ?thesis by simp
qed

theorem default_echo_witness:
  "responseHandler SERVERS_listening \<lparr>url = ''/status'', method = ''GET'', headers = [(''host'', Single ''localhost'')]\<rparr> =
     Responded
       \<lparr>statusCode = Finite 200,
        responseHeaders = [(''content-type'', ''application/json'')],
        body = [Text (JSON_stringify (JObject
                 [(''url'', JString ''/status''),
                  (''method'', JString ''GET''),
                  (''headers'', JObject [(''host'', JString ''localhost'')])]))]\<rparr> \<and>
   responseHandler (SERVERS_listening\<lparr>graphql := \<lparr>server_url = None\<rparr>\<rparr>)
       \<lparr>url = ''/graphql'', method = ''POST'', headers = []\<rparr> =
     Responded
       \<lparr>statusCode = Finite 200,
        responseHeaders = [(''content-type'', ''application/json'')],
        body = [Text (JSON_stringify (JObject
                 [(''url'', JString ''/graphql''),
                  (''method'', JString ''POST''),
                  (''headers'', JObject [])]))]\<rparr>"
proof -
  have a: "getTargetURL (SERVERS_listening\<lparr>graphql := \<lparr>server_url = None\<rparr>\<rparr>)
       \<lparr>url = ''/graphql'', method = ''POST'', headers = []\<rparr> = None"
    by (simp add: getTargetURL_def header_def property_key_def get_undefined startsWith_def)
  have b: "get SERVERS_listening (property_key (header \<lparr>url = ''/status'', method = ''GET'', headers = [(''host'', Single ''localhost'')]\<rparr> ''target-server'')) = Undefined"
    by (simp add: header_def property_key_def get_undefined)
  have c: "\<not> test_redirect ''/status''" "\<not> test_bytes ''/status''"
    by (simp_all add: test_redirect_def test_bytes_def is_digit_def)
  show ?thesis
    using default_echo [of SERVERS_listening "\<lparr>url = ''/status'', method = ''GET'', headers = [(''host'', Single ''localhost'')]\<rparr>"]
      default_echo [of "SERVERS_listening\<lparr>graphql := \<lparr>server_url = None\<rparr>\<rparr>" "\<lparr>url = ''/graphql'', method = ''POST'', headers = []\<rparr>"]
      a b c
    by (simp add: startsWith_def headers_json_def)
qed

section \<open>The bytes fixture answers\<close>

lemma last_segment:
  "at_index (split sep s) (int (length (split sep s)) - 1) = Some (last (split sep s))"
proof -
  have ne: "split sep s \<noteq> []"
    by (induction s) (auto split: list.splits)
  then have "nat (int (length (split sep s)) - 1) = length (split sep s) - 1"
    by simp
  then show ?thesis
    using ne by (simp add: at_index_def last_conv_nth)
qed

lemma Number_1024: "Number ''1024'' = Finite 1024"
  by code_simp

lemma Number_abc: "Number ''abc'' = NaN"
  by code_simp

lemma bytes_response:
  "createBytesServer_on_request kMaxLength req =
     (let n = Number (last (split CHR ''/'' (url req)));
          bytes = (if truthy n then n else Finite 0)
      in case Buffer_alloc kMaxLength bytes of
           Inl e \<Rightarrow> Inl e
         | Inr buffer \<Rightarrow>
             Inr \<lparr>statusCode = Finite 200, responseHeaders = [], body = [Buffer buffer]\<rparr>)"
  by (simp add: createBytesServer_on_request_def last_segment Let_def res_end_def res_write_def
      writeHead_def fresh_response_def split: sum.splits)

text \<open>
  Claim C9. The request for \<open>/bytes/1024\<close> is answered with status 200 and a body of
  exactly 1024 bytes, on any platform whose buffers may be that long.
\<close>

theorem bytes_1024:
  assumes "1024 \<le> kMaxLength" and "url req = ''/bytes/1024''"
  shows "createBytesServer_on_request kMaxLength req =
           Inr \<lparr>statusCode = Finite 200, responseHeaders = [], body = [Buffer (replicate 1024 0)]\<rparr> \<and>
         (\<forall>res. createBytesServer_on_request kMaxLength req = Inr res \<longrightarrow>
                length (body_bytes res) = 1024)"
proof -
  have s: "last (split CHR ''/'' (url req)) = ''1024''"
    by (simp add: assms(2))
  have "(1024::rat) \<le> of_int kMaxLength"
    using assms(1) by (metis of_int_le_iff of_int_numeral)
  then have b: "Buffer_alloc kMaxLength (Finite 1024) = Inr (replicate 1024 0)"
    by (simp add: Buffer_alloc_def)
  have r: "createBytesServer_on_request kMaxLength req =
           Inr \<lparr>statusCode = Finite 200, responseHeaders = [], body = [Buffer (replicate 1024 0)]\<rparr>"
    unfolding bytes_response s Number_1024 by (simp add: b)
  show ?thesis
    unfolding r by (simp add: body_bytes_def)
qed

theorem bytes_1024_witness:
  "createBytesServer_on_request 4294967296 \<lparr>url = ''/bytes/1024'', method = ''GET'', headers = []\<rparr> =
     Inr \<lparr>statusCode = Finite 200, responseHeaders = [], body = [Buffer (replicate 1024 0)]\<rparr> \<and>
   length (body_bytes \<lparr>statusCode = Finite 200, responseHeaders = [], body = [Buffer (replicate 1024 0)]\<rparr>) = 1024"
  using bytes_1024 [of 4294967296 "\<lparr>url = ''/bytes/1024'', method = ''GET'', headers = []\<rparr>"]
  by simp

text \<open>
  Claim C10. When \<open>Number\<close> of the last segment of the path is \<open>NaN\<close>, the size falls back
  to 0: the answer is status 200 with a body of no bytes, and no error, whatever the
  (non-negative) limit of \<open>Buffer.alloc\<close> is.
\<close>

theorem bytes_not_a_number:
  assumes "Number (last (split CHR ''/'' (url req))) = NaN" and "0 \<le> kMaxLength"
  shows "createBytesServer_on_request kMaxLength req =
           Inr \<lparr>statusCode = Finite 200, responseHeaders = [], body = [Buffer []]\<rparr> \<and>
         (\<forall>res. createBytesServer_on_request kMaxLength req = Inr res \<longrightarrow> body_bytes res = [])"
proof -
  have b: "Buffer_alloc kMaxLength (Finite 0) = Inr []"
    using assms(2) by (simp add: Buffer_alloc_def)
  have r: "createBytesServer_on_request kMaxLength req =
           Inr \<lparr>statusCode = Finite 200, responseHeaders = [], body = [Buffer []]\<rparr>"
    unfolding bytes_response assms(1) by (simp add: b)
  show ?thesis
    unfolding r by (simp add: body_bytes_def)
qed

theorem bytes_not_a_number_witness:
  "createBytesServer_on_request 4294967296 \<lparr>url = ''/bytes/abc'', method = ''GET'', headers = []\<rparr> =
     Inr \<lparr>statusCode = Finite 200, responseHeaders = [], body = [Buffer []]\<rparr>"
  using bytes_not_a_number [of "\<lparr>url = ''/bytes/abc'', method = ''GET'', headers = []\<rparr>" 4294967296]
  by (simp add: Number_abc)

end
